theory Spec2Isabelle
  imports Main
begin

section \<open>Python values and exceptions\<close>

text \<open>
  The configuration dictionaries of \<^verbatim>\<open>django_utils.py\<close> and the template context of
  \<^verbatim>\<open>decorators.py\<close> are plain Python data. A dictionary literal is kept as the list
  of its key/value pairs in source order; its keys are strings throughout the code.
\<close>

datatype pyval =
    PNone
  | PBool bool
  | PInt int
  | PStr string
  | PList "pyval list"
  | PDict "(string \<times> pyval) list"

datatype exn =
    AttributeError string
  | KeyError string
  | TypeError string

text \<open>Truth value of a Python object, as tested by \<^verbatim>\<open>if\<close> and \<^verbatim>\<open>or\<close>.\<close>

fun truthy :: "pyval \<Rightarrow> bool" where
  "truthy PNone = False"
| "truthy (PBool b) = b"
| "truthy (PInt n) = (n \<noteq> 0)"
| "truthy (PStr s) = (s \<noteq> [])"
| "truthy (PList xs) = (xs \<noteq> [])"
| "truthy (PDict kvs) = (kvs \<noteq> [])"

text \<open>Subscription \<^verbatim>\<open>d[k]\<close>: KeyError on a missing key, TypeError on a non-dictionary.\<close>

fun getitem :: "pyval \<Rightarrow> string \<Rightarrow> exn + pyval" where
  "getitem (PDict kvs) k = (case map_of kvs k of None \<Rightarrow> Inl (KeyError k) | Some v \<Rightarrow> Inr v)"
| "getitem _ k = Inl (TypeError ''__getitem__'')"

section \<open>Modulestore configuration for test cases\<close>

text \<open>
  \<^verbatim>\<open>MONGO_HOST\<close> and \<^verbatim>\<open>MONGO_PORT_NUM\<close> are imported from a module outside the
  sources at hand; they are parameters of the model.
\<close>

record mongo_connection =
  MONGO_HOST :: string
  MONGO_PORT_NUM :: int

text \<open>
  \<^verbatim>\<open>uuid4()\<close> draws a fresh random UUID. The source of randomness is explicit state:
  \<open>uuid_hex s n\<close> is the \<^verbatim>\<open>hex\<close> string of the \<open>n\<close>-th UUID drawn, \<open>drawn s\<close> counts the
  draws made so far.
\<close>

record uuid_source =
  uuid_hex :: "nat \<Rightarrow> string"
  drawn :: nat

definition uuid4 :: "uuid_source \<Rightarrow> string \<times> uuid_source" where
  "uuid4 s = (uuid_hex s (drawn s), s\<lparr>drawn := Suc (drawn s)\<rparr>)"

definition draft_mongo_store_config ::
  "mongo_connection \<Rightarrow> string \<Rightarrow> uuid_source \<Rightarrow> pyval \<times> uuid_source" where
  "draft_mongo_store_config mc data_dir s =
     (let modulestore_options = PDict
            [(''default_class'', PStr ''xmodule.raw_module.RawDescriptor''),
             (''fs_root'', PStr data_dir),
             (''render_template'', PStr ''edxmako.shortcuts.render_to_string'')];
          (u, s') = uuid4 s;
          store = PDict
            [(''default'', PDict
               [(''NAME'', PStr ''draft''),
                (''ENGINE'', PStr ''xmodule.modulestore.mongo.draft.DraftModuleStore''),
                (''DOC_STORE_CONFIG'', PDict
                   [(''host'', PStr (MONGO_HOST mc)),
                    (''port'', PInt (MONGO_PORT_NUM mc)),
                    (''db'', PStr ''test_xmodule''),
                    (''collection'', PStr (''modulestore'' @ take 5 u))]),
                (''OPTIONS'', modulestore_options)])]
      in (store, s'))"

definition split_mongo_store_config ::
  "mongo_connection \<Rightarrow> string \<Rightarrow> uuid_source \<Rightarrow> pyval \<times> uuid_source" where
  "split_mongo_store_config mc data_dir s =
     (let modulestore_options = PDict
            [(''default_class'', PStr ''xmodule.raw_module.RawDescriptor''),
             (''fs_root'', PStr data_dir),
             (''render_template'', PStr ''edxmako.shortcuts.render_to_string'')];
          (u, s') = uuid4 s;
          store = PDict
            [(''default'', PDict
               [(''NAME'', PStr ''draft''),
                (''ENGINE'', PStr
                   ''xmodule.modulestore.split_mongo.split_draft.DraftVersioningModuleStore''),
                (''DOC_STORE_CONFIG'', PDict
                   [(''host'', PStr (MONGO_HOST mc)),
                    (''port'', PInt (MONGO_PORT_NUM mc)),
                    (''db'', PStr ''test_xmodule''),
                    (''collection'', PStr (''modulestore'' @ take 5 u))]),
                (''OPTIONS'', modulestore_options)])]
      in (store, s'))"

definition xml_store_config :: "string \<Rightarrow> pyval \<Rightarrow> pyval" where
  "xml_store_config data_dir course_dirs =
     PDict
       [(''default'', PDict
          [(''NAME'', PStr ''xml''),
           (''ENGINE'', PStr ''xmodule.modulestore.xml.XMLModuleStore''),
           (''OPTIONS'', PDict
              [(''data_dir'', PStr data_dir),
               (''default_class'', PStr ''xmodule.hidden_module.HiddenDescriptor''),
               (''course_dirs'', course_dirs)])])]"

text \<open>
  \<^verbatim>\<open>mixed_store_config(data_dir, mappings, include_xml=True)\<close>. The two Mongo
  configurations are built in source order, each drawing its own UUID; every
  \<^verbatim>\<open>[...]['default']\<close> is a subscription that may raise.
\<close>

definition mixed_store_config ::
  "mongo_connection \<Rightarrow> string \<Rightarrow> pyval \<Rightarrow> bool \<Rightarrow> uuid_source \<Rightarrow> (exn + pyval) \<times> uuid_source" where
  "mixed_store_config mc data_dir mappings include_xml s =
     (let (draft, s1) = draft_mongo_store_config mc data_dir s in
      case getitem draft ''default'' of
        Inl e \<Rightarrow> (Inl e, s1)
      | Inr draft_default \<Rightarrow>
          (let (split, s2) = split_mongo_store_config mc data_dir s1 in
           case getitem split ''default'' of
             Inl e \<Rightarrow> (Inl e, s2)
           | Inr split_default \<Rightarrow>
               (let stores = [draft_default, split_default] in
                case (if include_xml
                      then (case getitem (xml_store_config data_dir PNone) ''default'' of
                              Inl e \<Rightarrow> Inl e
                            | Inr xml_default \<Rightarrow> Inr (stores @ [xml_default]))
                      else Inr stores) of
                  Inl e \<Rightarrow> (Inl e, s2)
                | Inr stores' \<Rightarrow>
                    (Inr (PDict
                       [(''default'', PDict
                          [(''ENGINE'', PStr ''xmodule.modulestore.mixed.MixedModuleStore''),
                           (''OPTIONS'', PDict
                              [(''mappings'', mappings),
                               (''stores'', PList stores')])])]), s2))))"

section \<open>The test-case lifecycle hooks\<close>

text \<open>
  What \<^verbatim>\<open>ModuleStoreTestCase\<close> sees of a module store: whether it is an instance of
  \<^verbatim>\<open>XMLModuleStore\<close>, its \<^verbatim>\<open>modulestores\<close> list, and whether it has a
  \<^verbatim>\<open>close_connections\<close> attribute. Of each constituent store it sees the optional
  attributes \<^verbatim>\<open>database\<close> (with its name and its connection) and \<^verbatim>\<open>fs_root\<close>;
  an absent attribute (\<^verbatim>\<open>hasattr\<close> false) is \<open>None\<close>.
\<close>

record database =
  db_name :: string
  connection :: nat

record store =
  store_database :: "database option"
  store_fs_root :: "string option"

record module_store =
  is_XMLModuleStore :: bool
  modulestores :: "store list"
  has_close_connections :: bool

text \<open>Calls that leave the test case, in the order they are made.\<close>

datatype event =
    DropDatabase nat string
  | Disconnect nat
  | CloseConnections
  | ClearExistingModulestores
  | ClearRequestCache
  | Rmtree string
  | SuperPreSetup
  | SuperPostTeardown

text \<open>
  The state the hooks act on: the calls made so far and the content-store cache
  \<^verbatim>\<open>_CONTENTSTORE\<close>, a module-level dictionary.
\<close>

record world =
  events :: "event list"
  CONTENTSTORE :: "(string \<times> pyval) list"

text \<open>
  \<^verbatim>\<open>modulestore()\<close> and \<^verbatim>\<open>os.path.isdir\<close> are read from the environment; what they
  return may depend on everything done so far.
\<close>

record environment =
  modulestore :: "world \<Rightarrow> module_store"
  isdir :: "world \<Rightarrow> string \<Rightarrow> bool"

definition emit :: "event \<Rightarrow> world \<Rightarrow> world" where
  "emit e w = w\<lparr>events := events w @ [e]\<rparr>"

text \<open>The body of the loop of \<^verbatim>\<open>drop_mongo_collections\<close>, for one store.\<close>

definition drop_store :: "world \<Rightarrow> store \<Rightarrow> world" where
  "drop_store w st =
     (case store_database st of
        None \<Rightarrow> w
      | Some db \<Rightarrow>
          (let name = db_name db;
               w1 = emit (DropDatabase (connection db) name) w;
               conn = connection db
           in emit (Disconnect conn) w1))"

definition drop_mongo_collections :: "environment \<Rightarrow> world \<Rightarrow> world" where
  "drop_mongo_collections E w =
     (let module_store = modulestore E w;
          w1 = (if \<not> is_XMLModuleStore module_store
                then foldl drop_store w (modulestores module_store)
                else w);
          w2 = w1\<lparr>CONTENTSTORE := []\<rparr>
      in if has_close_connections module_store then emit CloseConnections w2 else w2)"

text \<open>\<^verbatim>\<open>_pre_setup\<close> (an Isabelle name cannot start with an underscore).\<close>

definition pre_setup :: "environment \<Rightarrow> world \<Rightarrow> world" where
  "pre_setup E w = emit SuperPreSetup (drop_mongo_collections E w)"

definition startswith :: "string \<Rightarrow> string \<Rightarrow> bool" where
  "startswith s p = (take (length p) s = p)"

text \<open>The body of the loop of \<^verbatim>\<open>_post_teardown\<close>, for one store.\<close>

definition teardown_store :: "environment \<Rightarrow> world \<Rightarrow> store \<Rightarrow> world" where
  "teardown_store E w st =
     (let w1 = (case store_database st of
                  None \<Rightarrow> w
                | Some db \<Rightarrow> emit (Disconnect (connection db)) w)
      in case store_fs_root st of
           None \<Rightarrow> w1
         | Some fs_root \<Rightarrow>
             if startswith fs_root ''/tmp/'' \<and> isdir E w1 fs_root
             then emit (Rmtree fs_root) w1
             else w1)"

text \<open>\<^verbatim>\<open>_post_teardown\<close>.\<close>

definition post_teardown :: "environment \<Rightarrow> world \<Rightarrow> world" where
  "post_teardown E w =
     (let w1 = drop_mongo_collections E w;
          w2 = emit ClearExistingModulestores w1;
          w3 = emit ClearRequestCache w2;
          module_store = modulestore E w3;
          w4 = (if \<not> is_XMLModuleStore module_store
                then foldl (teardown_store E) w3 (modulestores module_store)
                else w3)
      in emit SuperPostTeardown w4)"

section \<open>Seeding a sample course\<close>

text \<open>
  A \<^verbatim>\<open>BlockInfo\<close> record: block id, category, field values and the list of child
  records.
\<close>

datatype block_info =
  BlockInfo (block_id: string) (category: string) (fields: pyval) (sub_tree: "block_info list")

text \<open>
  Calls on \<^verbatim>\<open>self.store\<close>, in the order they are made. Locations and course keys
  belong to the store; the model leaves their types open.
\<close>

datatype 'loc store_call =
    BranchSettingEnter
  | CreateCourse string string string int pyval
  | CreateChild int 'loc string string pyval
  | Publish 'loc int
  | BranchSettingExit

text \<open>
  What the store answers: the location of the course or block just created (it may
  depend on every call made so far, the creating call included), the
  \<^verbatim>\<open>version_agnostic()\<close> form of a location or of a course key, and the course key of a
  location. \<^verbatim>\<open>default_block_info_tree\<close> is imported from a module outside the sources
  at hand.
\<close>

record ('loc, 'key) modulestore_api =
  created_course_location :: "'loc store_call list \<Rightarrow> 'loc"
  created_child_location :: "'loc store_call list \<Rightarrow> 'loc"
  version_agnostic :: "'loc \<Rightarrow> 'loc"
  course_key :: "'loc \<Rightarrow> 'key"
  key_version_agnostic :: "'key \<Rightarrow> 'key"
  default_block_info_tree :: "block_info list"

text \<open>
  The test case is a Python object: one namespace of instance attributes holds the
  store handle (\<^verbatim>\<open>self.store\<close>), the user (\<^verbatim>\<open>self.user\<close>, of which the method reads the
  \<^verbatim>\<open>id\<close>), \<^verbatim>\<open>self.course_loc\<close>, and whatever \<^verbatim>\<open>setattr(self, block_id, ...)\<close> binds.
  Not every name can be bound: \<open>unsettable\<close> gives, for a name the object refuses (a
  read-only descriptor of its class, a name that cannot be encoded), the exception
  raised, and \<open>None\<close> for a name it accepts.
\<close>

datatype 'loc attr = StoreAttr | UserAttr int | LocAttr 'loc

record 'loc test_case =
  attrs :: "string \<rightharpoonup> 'loc attr"
  calls :: "'loc store_call list"
  unsettable :: "string \<Rightarrow> exn option"

text \<open>
  \<^verbatim>\<open>setattr(self, name, value)\<close> and the assignment \<^verbatim>\<open>self.name = value\<close>, for the values
  the method binds (locations). Every Python object refuses a location as its
  \<^verbatim>\<open>__class__\<close> or its \<^verbatim>\<open>__dict__\<close> with a TypeError.
\<close>

definition setattr :: "string \<Rightarrow> 'loc attr \<Rightarrow> 'loc test_case \<Rightarrow> exn + 'loc test_case" where
  "setattr name v self =
     (if name = ''__class__'' then Inl (TypeError ''__class__ must be set to a class'')
      else if name = ''__dict__'' then Inl (TypeError ''__dict__ must be set to a dictionary'')
      else case unsettable self name of
             Some e \<Rightarrow> Inl e
           | None \<Rightarrow> Inr (self\<lparr>attrs := (attrs self)(name \<mapsto> v)\<rparr>))"

definition call :: "'loc store_call \<Rightarrow> 'loc test_case \<Rightarrow> 'loc test_case" where
  "call c self = self\<lparr>calls := calls self @ [c]\<rparr>"

text \<open>
  \<^verbatim>\<open>self.store.<method>\<close>: AttributeError when the attribute is missing, or when what it
  holds is not a store and so has no such method.
\<close>

definition self_store :: "'loc test_case \<Rightarrow> string \<Rightarrow> exn + unit" where
  "self_store self attribute =
     (case attrs self ''store'' of
        None \<Rightarrow> Inl (AttributeError ''store'')
      | Some StoreAttr \<Rightarrow> Inr ()
      | Some _ \<Rightarrow> Inl (AttributeError attribute))"

text \<open>\<^verbatim>\<open>self.user.id\<close>.\<close>

definition self_user_id :: "'loc test_case \<Rightarrow> exn + int" where
  "self_user_id self =
     (case attrs self ''user'' of
        None \<Rightarrow> Inl (AttributeError ''user'')
      | Some (UserAttr uid) \<Rightarrow> Inr uid
      | Some _ \<Rightarrow> Inl (AttributeError ''id''))"

text \<open>\<^verbatim>\<open>self.course_loc\<close>, read as a location.\<close>

definition self_course_loc :: "'loc test_case \<Rightarrow> exn + 'loc" where
  "self_course_loc self =
     (case attrs self ''course_loc'' of
        None \<Rightarrow> Inl (AttributeError ''course_loc'')
      | Some (LocAttr l) \<Rightarrow> Inr l
      | Some _ \<Rightarrow> Inl (AttributeError ''version_agnostic''))"

text \<open>
  The local function \<^verbatim>\<open>create_sub_tree(parent_loc, block_info)\<close> and its loop over
  \<^verbatim>\<open>block_info.sub_tree\<close>. An exception ends the call; the model keeps the exception
  only.
\<close>

fun create_sub_tree ::
    "('loc, 'key) modulestore_api \<Rightarrow> 'loc \<Rightarrow> block_info \<Rightarrow> 'loc test_case \<Rightarrow> exn + 'loc test_case"
  and create_sub_trees ::
    "('loc, 'key) modulestore_api \<Rightarrow> 'loc \<Rightarrow> block_info list \<Rightarrow> 'loc test_case \<Rightarrow> exn + 'loc test_case"
where
  "create_sub_tree S parent_loc (BlockInfo bid cat flds subs) self =
     (case self_store self ''create_child'' of
        Inl e \<Rightarrow> Inl e
      | Inr _ \<Rightarrow>
     (case self_user_id self of
        Inl e \<Rightarrow> Inl e
      | Inr uid \<Rightarrow>
          (let self1 = call (CreateChild uid (version_agnostic S parent_loc) cat bid flds) self;
               block_location = created_child_location S (calls self1)
           in case create_sub_trees S block_location subs self1 of
                Inl e \<Rightarrow> Inl e
              | Inr self2 \<Rightarrow>
                  setattr bid (LocAttr (version_agnostic S block_location)) self2)))"
| "create_sub_trees S block_location [] self = Inr self"
| "create_sub_trees S block_location (tree # trees) self =
     (case create_sub_tree S block_location tree self of
        Inl e \<Rightarrow> Inl e
      | Inr self' \<Rightarrow> create_sub_trees S block_location trees self')"

text \<open>
  The loop \<^verbatim>\<open>for tree in block_info_tree: create_sub_tree(self.course_loc, tree)\<close>, which
  reads \<^verbatim>\<open>self.course_loc\<close> anew for every tree.
\<close>

fun create_trees ::
    "('loc, 'key) modulestore_api \<Rightarrow> block_info list \<Rightarrow> 'loc test_case \<Rightarrow> exn + 'loc test_case"
where
  "create_trees S [] self = Inr self"
| "create_trees S (tree # trees) self =
     (case self_course_loc self of
        Inl e \<Rightarrow> Inl e
      | Inr course_loc \<Rightarrow>
     (case create_sub_tree S course_loc tree self of
        Inl e \<Rightarrow> Inl e
      | Inr self' \<Rightarrow> create_trees S trees self'))"

definition create_sample_course ::
    "('loc, 'key) modulestore_api \<Rightarrow> string \<Rightarrow> string \<Rightarrow> string \<Rightarrow> block_info list option \<Rightarrow> pyval
      \<Rightarrow> 'loc test_case \<Rightarrow> exn + ('key \<times> 'loc test_case)"
where
  "create_sample_course S org course run block_info_tree course_fields self =
     (let block_info_tree' =
            (case block_info_tree of None \<Rightarrow> default_block_info_tree S | Some t \<Rightarrow> t)
      in case self_store self ''branch_setting'' of
           Inl e \<Rightarrow> Inl e
         | Inr _ \<Rightarrow>
      (let self0 = call BranchSettingEnter self
       in case self_store self0 ''create_course'' of
            Inl e \<Rightarrow> Inl e
          | Inr _ \<Rightarrow>
         (case self_user_id self0 of
            Inl e \<Rightarrow> Inl e
          | Inr uid \<Rightarrow>
      (let self1 = call (CreateCourse org course run uid course_fields) self0
       in case setattr ''course_loc'' (LocAttr (created_course_location S (calls self1))) self1 of
            Inl e \<Rightarrow> Inl e
          | Inr self2 \<Rightarrow>
         (case create_trees S block_info_tree' self2 of
            Inl e \<Rightarrow> Inl e
          | Inr self3 \<Rightarrow>
         (case self_store self3 ''publish'' of
            Inl e \<Rightarrow> Inl e
          | Inr _ \<Rightarrow>
         (case self_course_loc self3 of
            Inl e \<Rightarrow> Inl e
          | Inr course_loc \<Rightarrow>
         (case self_user_id self3 of
            Inl e \<Rightarrow> Inl e
          | Inr uid' \<Rightarrow>
      (let self4 = call (Publish (version_agnostic S course_loc) uid') self3;
           self5 = call BranchSettingExit self4
       in case self_course_loc self5 of
            Inl e \<Rightarrow> Inl e
          | Inr course_loc' \<Rightarrow>
              Inr (key_version_agnostic S (course_key S course_loc'), self5))))))))))"

section \<open>The edxnotes decorator\<close>

text \<open>
  What the wrapper reads of a component: the attributes of \<^verbatim>\<open>self.system\<close> (a
  dictionary from attribute names, so that a missing attribute can be told from a
  false one), \<^verbatim>\<open>self.runtime.course_id\<close>, \<^verbatim>\<open>self.scope_ids.usage_id\<close> and
  \<^verbatim>\<open>self.runtime.anonymous_student_id\<close>; the keys in their \<^verbatim>\<open>unicode\<close> form, as UTF-8
  bytes.
\<close>

record component =
  system :: "(string \<times> pyval) list"
  course_id :: string
  usage_id :: string
  anonymous_student_id :: string

text \<open>What the wrapper reads of a course: \<^verbatim>\<open>course.id\<close> and \<^verbatim>\<open>course.edxnotes_visibility\<close>.\<close>

record course =
  id' :: string
  edxnotes_visibility :: pyval

text \<open>
  The collaborators the wrapper calls, all outside the sources at hand:
  \<^verbatim>\<open>self.descriptor.runtime.modulestore.get_course\<close>, the helpers of
  \<^verbatim>\<open>edxnotes.helpers\<close>, \<^verbatim>\<open>reverse\<close>, \<^verbatim>\<open>json.dumps\<close>,
  \<^verbatim>\<open>self.runtime.get_real_user\<close>, \<^verbatim>\<open>settings.DEBUG\<close> and \<^verbatim>\<open>render_to_string\<close>.
  \<^verbatim>\<open>generate_uid()\<close> is listed by the value it returns to this call.
\<close>

record helpers =
  get_course :: "string \<Rightarrow> course"
  is_feature_enabled :: "course \<Rightarrow> pyval"
  generate_uid :: pyval
  reverse :: "string \<Rightarrow> (string \<times> string) list \<Rightarrow> string"
  json_dumps :: "pyval \<Rightarrow> string"
  get_real_user :: "string \<Rightarrow> pyval"
  get_token :: "pyval \<Rightarrow> string"
  get_endpoint :: string
  DEBUG :: pyval
  render_to_string :: "string \<Rightarrow> (string \<times> pyval) list \<Rightarrow> string"

text \<open>
  A method takes \<^verbatim>\<open>self\<close>, the positional and the keyword arguments; it may change the
  world \<open>'w\<close> and it returns a value or raises.
\<close>

type_synonym 'w bound_method =
  "component \<Rightarrow> pyval list \<Rightarrow> (string \<times> pyval) list \<Rightarrow> 'w \<Rightarrow> (exn + pyval) \<times> 'w"

text \<open>The builtin \<^verbatim>\<open>getattr(obj, name, default)\<close>.\<close>

definition getattr :: "(string \<times> pyval) list \<Rightarrow> string \<Rightarrow> pyval \<Rightarrow> pyval" where
  "getattr obj name dflt = (case map_of obj name of None \<Rightarrow> dflt | Some v \<Rightarrow> v)"

text \<open>The inner function \<^verbatim>\<open>get_html(self, *args, **kwargs)\<close> of the decorator.\<close>

definition get_html :: "helpers \<Rightarrow> 'w bound_method \<Rightarrow> 'w bound_method" where
  "get_html H original_get_html self args kwargs w =
     (let is_studio = getattr (system self) ''is_author_mode'' (PBool False);
          course = get_course H (course_id self)
      in if truthy is_studio \<or> \<not> truthy (is_feature_enabled H course)
         then original_get_html self args kwargs w
         else (case original_get_html self args kwargs w of
                 (Inl e, w') \<Rightarrow> (Inl e, w')
               | (Inr content, w') \<Rightarrow>
                   (Inr (PStr (render_to_string H ''edxnotes_wrapper.html''
                      [(''content'', content),
                       (''uid'', generate_uid H),
                       (''edxnotes_visibility_url'',
                          PStr (reverse H ''edxnotes_visibility'' [(''course_id'', id' course)])),
                       (''edxnotes_visibility'',
                          PStr (json_dumps H (edxnotes_visibility course))),
                       (''params'', PDict
                          [(''usageId'', PStr (usage_id self)),
                           (''courseId'', PStr (course_id self)),
                           (''token'', PStr (get_token H
                              (get_real_user H (anonymous_student_id self)))),
                           (''endpoint'', PStr (get_endpoint H)),
                           (''debug'', DEBUG H)])])), w')))"

text \<open>
  Classes are objects on a heap. A class has a namespace of its own (its
  \<^verbatim>\<open>__dict__\<close>) and the list of its proper ancestors in method resolution order.
  \<^verbatim>\<open>cls.name\<close> resolves in the namespace of the class first, then in those of its
  ancestors in order, and raises AttributeError when none of them binds the name;
  \<^verbatim>\<open>cls.name = value\<close> binds the name in the namespace of the class itself.
\<close>

record 'w py_class =
  class_dict :: "string \<rightharpoonup> 'w bound_method"
  ancestors :: "nat list"

type_synonym 'w heap = "nat \<Rightarrow> 'w py_class"

fun mro_lookup :: "'w heap \<Rightarrow> nat list \<Rightarrow> string \<Rightarrow> 'w bound_method option" where
  "mro_lookup h [] name = None"
| "mro_lookup h (c # cs) name =
     (case class_dict (h c) name of Some v \<Rightarrow> Some v | None \<Rightarrow> mro_lookup h cs name)"

definition class_getattr :: "'w heap \<Rightarrow> nat \<Rightarrow> string \<Rightarrow> exn + 'w bound_method" where
  "class_getattr h cls name =
     (case mro_lookup h (cls # ancestors (h cls)) name of
        None \<Rightarrow> Inl (AttributeError name)
      | Some v \<Rightarrow> Inr v)"

definition class_setattr :: "'w heap \<Rightarrow> nat \<Rightarrow> string \<Rightarrow> 'w bound_method \<Rightarrow> 'w heap" where
  "class_setattr h cls name v = h(cls := (h cls)\<lparr>class_dict := (class_dict (h cls))(name \<mapsto> v)\<rparr>)"

text \<open>The decorator \<^verbatim>\<open>edxnotes(cls)\<close>.\<close>

definition edxnotes :: "helpers \<Rightarrow> nat \<Rightarrow> 'w heap \<Rightarrow> exn + (nat \<times> 'w heap)" where
  "edxnotes H cls h =
     (case class_getattr h cls ''get_html'' of
        Inl e \<Rightarrow> Inl e
      | Inr original_get_html \<Rightarrow>
          Inr (cls, class_setattr h cls ''get_html'' (get_html H original_get_html)))"

section \<open>Observations and example inputs\<close>

text \<open>
  The functions of this section are not part of the program. They read off a result
  what a property speaks about, or give the concrete inputs at which the properties
  are evaluated.
\<close>

text \<open>The list \<^verbatim>\<open>cfg['default']['OPTIONS']['stores']\<close> of a mixed configuration.\<close>

definition mixed_stores :: "pyval \<Rightarrow> pyval list" where
  "mixed_stores cfg =
     (case getitem cfg ''default'' of
        Inr profile \<Rightarrow>
          (case getitem profile ''OPTIONS'' of
             Inr opts \<Rightarrow> (case getitem opts ''stores'' of Inr (PList xs) \<Rightarrow> xs | _ \<Rightarrow> [])
           | Inl _ \<Rightarrow> [])
      | Inl _ \<Rightarrow> [])"

definition example_uuids :: uuid_source where
  "example_uuids =
     \<lparr>uuid_hex = (\<lambda>n. if n = 0 then ''0f3a9c2e5d7b4a1e8c6f0b2d4e6a8c0e''
                      else ''9b1d3f5a7c9e4b2d8f0a2c4e6b8d0f1a''),
      drawn = 0\<rparr>"

definition example_mongo :: mongo_connection where
  "example_mongo = \<lparr>MONGO_HOST = ''localhost'', MONGO_PORT_NUM = 27017\<rparr>"

text \<open>The calls \<^verbatim>\<open>drop_mongo_collections\<close> makes for one store of a mixed module store.\<close>

definition drop_calls :: "store \<Rightarrow> event list" where
  "drop_calls st =
     (case store_database st of
        None \<Rightarrow> []
      | Some db \<Rightarrow> [DropDatabase (connection db) (db_name db), Disconnect (connection db)])"

text \<open>The calls by which \<^verbatim>\<open>_post_teardown\<close> removes temporary directories.\<close>

fun is_cleanup :: "event \<Rightarrow> bool" where
  "is_cleanup (Disconnect c) = True"
| "is_cleanup (Rmtree p) = True"
| "is_cleanup _ = False"

definition example_mixed :: module_store where
  "example_mixed =
     \<lparr>is_XMLModuleStore = False,
      modulestores =
        [\<lparr>store_database = Some \<lparr>db_name = ''test_xmodule'', connection = 1\<rparr>,
          store_fs_root = Some ''/tmp/tmpA1''\<rparr>,
         \<lparr>store_database = None, store_fs_root = Some ''/edx/data''\<rparr>],
      has_close_connections = True\<rparr>"

definition example_xml :: module_store where
  "example_xml = \<lparr>is_XMLModuleStore = True, modulestores = [], has_close_connections = True\<rparr>"

definition example_env :: "module_store \<Rightarrow> environment" where
  "example_env m = \<lparr>modulestore = (\<lambda>w. m), isdir = (\<lambda>w p. True)\<rparr>"

definition example_world :: world where
  "example_world = \<lparr>events = [], CONTENTSTORE = [(''default'', PStr ''MongoContentStore'')]\<rparr>"

text \<open>
  The records of a tree in the order of a depth-first walk that visits a record before
  the records of its \<^verbatim>\<open>sub_tree\<close>, and the children in list order.
\<close>

fun preorder :: "block_info \<Rightarrow> block_info list" where
  "preorder (BlockInfo bid cat flds subs) = BlockInfo bid cat flds subs # concat (map preorder subs)"

definition preorders :: "block_info list \<Rightarrow> block_info list" where
  "preorders ts = concat (map preorder ts)"

text \<open>
  What a store call creates: for \<^verbatim>\<open>create_child\<close> the user, category, block id and
  fields it was given; and what a record asks for.
\<close>

fun created :: "'loc store_call \<Rightarrow> (int \<times> string \<times> string \<times> pyval) option" where
  "created (CreateChild uid parent cat bid flds) = Some (uid, cat, bid, flds)"
| "created _ = None"

definition requested :: "int \<Rightarrow> block_info \<Rightarrow> (int \<times> string \<times> string \<times> pyval) option" where
  "requested uid b = Some (uid, category b, block_id b, block_info.fields b)"

text \<open>
  The store calls the claim describes, written after its words and not after the
  code: for a record, one \<^verbatim>\<open>create_child\<close> call by the user, under the
  version-agnostic parent location, with the record's category, block id and fields;
  then the calls for the records of its child list, in order, under the location the
  store gave the block just created. \<open>log\<close> is the list of the calls made before.
\<close>

fun claimed_sub_tree_calls ::
    "('loc, 'key) modulestore_api \<Rightarrow> int \<Rightarrow> 'loc \<Rightarrow> 'loc store_call list \<Rightarrow> block_info
      \<Rightarrow> 'loc store_call list"
  and claimed_sub_trees_calls ::
    "('loc, 'key) modulestore_api \<Rightarrow> int \<Rightarrow> 'loc \<Rightarrow> 'loc store_call list \<Rightarrow> block_info list
      \<Rightarrow> 'loc store_call list"
where
  "claimed_sub_tree_calls S uid parent log (BlockInfo bid cat flds subs) =
     CreateChild uid (version_agnostic S parent) cat bid flds
       # claimed_sub_trees_calls S uid
           (created_child_location S
              (log @ [CreateChild uid (version_agnostic S parent) cat bid flds]))
           (log @ [CreateChild uid (version_agnostic S parent) cat bid flds]) subs"
| "claimed_sub_trees_calls S uid parent log [] = []"
| "claimed_sub_trees_calls S uid parent log (t # ts) =
     claimed_sub_tree_calls S uid parent log t
       @ claimed_sub_trees_calls S uid parent (log @ claimed_sub_tree_calls S uid parent log t) ts"

text \<open>A name that \<^verbatim>\<open>setattr\<close> binds on the test case.\<close>

definition settable :: "'loc test_case \<Rightarrow> string \<Rightarrow> bool" where
  "settable self name =
     (name \<noteq> ''__class__'' \<and> name \<noteq> ''__dict__'' \<and> unsettable self name = None)"

text \<open>
  A run that returns, having made the store calls \<open>cs\<close> and having rebound no
  attribute but the block ids of the records \<open>bs\<close>.
\<close>

definition seeded ::
    "exn + 'loc test_case \<Rightarrow> 'loc test_case \<Rightarrow> 'loc store_call list \<Rightarrow> block_info list \<Rightarrow> bool" where
  "seeded r self cs bs =
     (\<exists>self'. r = Inr self' \<and> calls self' = calls self @ cs
        \<and> unsettable self' = unsettable self
        \<and> (\<forall>k. k \<notin> block_id ` set bs \<longrightarrow> attrs self' k = attrs self k))"

definition the_calls :: "exn + ('key \<times> 'loc test_case) \<Rightarrow> exn + 'loc store_call list" where
  "the_calls r = (case r of Inl e \<Rightarrow> Inl e | Inr (k, self') \<Rightarrow> Inr (calls self'))"

definition example_store :: "(string, string) modulestore_api" where
  "example_store =
     \<lparr>created_course_location = (\<lambda>cs. ''course''),
      created_child_location =
        (\<lambda>cs. case last cs of CreateChild u p c b f \<Rightarrow> ''block:'' @ b | _ \<Rightarrow> ''none''),
      version_agnostic = (\<lambda>l. l),
      course_key = (\<lambda>l. ''edX/toy/2012_Fall''),
      key_version_agnostic = (\<lambda>k. k),
      default_block_info_tree = []\<rparr>"

definition example_test_case :: "string test_case" where
  "example_test_case =
     \<lparr>attrs = [''store'' \<mapsto> StoreAttr, ''user'' \<mapsto> UserAttr 7], calls = [],
      unsettable = (\<lambda>name. None)\<rparr>"

definition example_tree :: "block_info list" where
  "example_tree =
     [BlockInfo ''chapter1'' ''chapter'' (PDict [(''display_name'', PStr ''Overview'')])
        [BlockInfo ''seq1'' ''sequential'' (PDict []) []],
      BlockInfo ''about1'' ''about'' (PDict []) []]"

text \<open>
  A method that also records, in front of the world, the arguments of every call made
  to it.
\<close>

definition recording ::
  "'w bound_method \<Rightarrow> ((component \<times> pyval list \<times> (string \<times> pyval) list) list \<times> 'w) bound_method" where
  "recording f self args kwargs lw =
     (case f self args kwargs (snd lw) of
        (r, w') \<Rightarrow> (r, (fst lw @ [(self, args, kwargs)], w')))"

definition example_helpers :: helpers where
  "example_helpers =
     \<lparr>get_course = (\<lambda>k. \<lparr>id' = k, edxnotes_visibility = PBool True\<rparr>),
      is_feature_enabled = (\<lambda>c. PBool (id' c = ''edX/toy/2012_Fall'')),
      generate_uid = PStr ''uid-1'',
      reverse = (\<lambda>name kw. ''/courses/'' @ concat (map snd kw) @ ''/'' @ name),
      json_dumps = (\<lambda>v. if truthy v then ''true'' else ''false''),
      get_real_user = (\<lambda>a. PStr a),
      get_token = (\<lambda>u. ''token''),
      get_endpoint = ''http://notes.example/api'',
      DEBUG = PBool False,
      render_to_string =
        (\<lambda>t ctx. case map_of ctx ''content'' of
                    Some (PStr c) \<Rightarrow> ''<div>'' @ c @ ''</div>''
                  | _ \<Rightarrow> t)\<rparr>"

definition example_original :: "nat bound_method" where
  "example_original self args kwargs w = (Inr (PStr ''<p>text</p>''), Suc w)"

text \<open>
  Class 0 defines \<^verbatim>\<open>get_html\<close> and \<^verbatim>\<open>handle_ajax\<close>, class 2 is a subclass of class 0
  that defines nothing itself, every other class has no attribute at all.
\<close>

definition example_heap :: "nat heap" where
  "example_heap =
     (\<lambda>c. if c = 0
           then \<lparr>class_dict =
                   [''get_html'' \<mapsto> example_original, ''handle_ajax'' \<mapsto> example_original],
                 ancestors = []\<rparr>
           else if c = 2 then \<lparr>class_dict = Map.empty, ancestors = [0]\<rparr>
           else \<lparr>class_dict = Map.empty, ancestors = []\<rparr>)"

definition studio_component :: component where
  "studio_component =
     \<lparr>system = [(''is_author_mode'', PBool True)], course_id = ''edX/toy/2012_Fall'',
      usage_id = ''i4x://edX/toy/html/welcome'', anonymous_student_id = ''anon''\<rparr>"

definition lms_component :: component where
  "lms_component =
     \<lparr>system = [], course_id = ''edX/toy/2012_Fall'',
      usage_id = ''i4x://edX/toy/html/welcome'', anonymous_student_id = ''anon''\<rparr>"

section \<open>Properties of the configuration functions\<close>

text \<open>
  Claim C3 says that two calls of \<^verbatim>\<open>draft_mongo_store_config\<close>,
  \<^verbatim>\<open>split_mongo_store_config\<close> or \<^verbatim>\<open>mixed_store_config\<close> with the same arguments return
  equal dictionaries. They do not in general: the collection name embeds the first five
  hex digits of a fresh \<^verbatim>\<open>uuid4()\<close>. What holds is that two calls with the same arguments
  return equal dictionaries exactly when the UUIDs they draw agree on their first five
  hex digits (one draw for the draft and the split configuration, two for the mixed
  one): the result is a function of the arguments and of these draws, and of nothing
  else.
\<close>

theorem store_config_equal_iff_uuid_prefixes_equal:
  "(fst (draft_mongo_store_config mc data_dir s) = fst (draft_mongo_store_config mc data_dir s')
      \<longleftrightarrow> take 5 (uuid_hex s (drawn s)) = take 5 (uuid_hex s' (drawn s')))
   \<and> (fst (split_mongo_store_config mc data_dir s) = fst (split_mongo_store_config mc data_dir s')
      \<longleftrightarrow> take 5 (uuid_hex s (drawn s)) = take 5 (uuid_hex s' (drawn s')))
   \<and> (fst (mixed_store_config mc data_dir mappings include_xml s)
        = fst (mixed_store_config mc data_dir mappings include_xml s')
      \<longleftrightarrow> take 5 (uuid_hex s (drawn s)) = take 5 (uuid_hex s' (drawn s'))
        \<and> take 5 (uuid_hex s (Suc (drawn s))) = take 5 (uuid_hex s' (Suc (drawn s'))))"
  by (simp add: mixed_store_config_def draft_mongo_store_config_def split_mongo_store_config_def
        xml_store_config_def uuid4_def Let_def)

text \<open>
  At a concrete input: a second source of UUIDs that agrees with the first on five
  digits gives the same draft configuration; the same source read one draw later gives
  a different split configuration.
\<close>

theorem store_config_equal_iff_uuid_prefixes_equal_witness:
  "fst (draft_mongo_store_config example_mongo ''/data'' example_uuids)
     = fst (draft_mongo_store_config example_mongo ''/data''
              (example_uuids\<lparr>uuid_hex := (\<lambda>n. ''0f3a9ffff'')\<rparr>))
   \<and> fst (split_mongo_store_config example_mongo ''/data'' example_uuids)
     \<noteq> fst (split_mongo_store_config example_mongo ''/data'' (example_uuids\<lparr>drawn := 1\<rparr>))"
  using store_config_equal_iff_uuid_prefixes_equal
          [of example_mongo "''/data''" example_uuids
              "example_uuids\<lparr>uuid_hex := (\<lambda>n. ''0f3a9ffff'')\<rparr>"]
        store_config_equal_iff_uuid_prefixes_equal
          [of example_mongo "''/data''" example_uuids "example_uuids\<lparr>drawn := 1\<rparr>"]
  by (simp add: example_uuids_def)

text \<open>
  Two consecutive calls of \<^verbatim>\<open>draft_mongo_store_config('/data')\<close>, the second drawing the
  next UUID, return different dictionaries.
\<close>

theorem draft_mongo_store_config_two_calls_differ:
  "fst (draft_mongo_store_config example_mongo ''/data'' example_uuids)
   \<noteq> fst (draft_mongo_store_config example_mongo ''/data''
            (snd (draft_mongo_store_config example_mongo ''/data'' example_uuids)))"
  by (simp add: draft_mongo_store_config_def uuid4_def example_uuids_def example_mongo_def)

text \<open>
  Claim C4: for every \<^verbatim>\<open>data_dir\<close>, \<^verbatim>\<open>mappings\<close> and \<^verbatim>\<open>include_xml\<close>,
  \<^verbatim>\<open>mixed_store_config\<close> returns (it raises nothing) a dictionary with the single key
  \<^verbatim>\<open>'default'\<close>, whose profile has the ENGINE
  \<^verbatim>\<open>'xmodule.modulestore.mixed.MixedModuleStore'\<close> and OPTIONS made of exactly the given
  mappings and a stores list: the \<^verbatim>\<open>'default'\<close> entries of the draft-mongo and the
  split-mongo configuration, in this order, followed by that of the XML configuration
  if and only if \<^verbatim>\<open>include_xml\<close> is true.
\<close>

theorem mixed_store_config_shape:
  "\<exists>draft_default split_default xml_default.
     getitem (fst (draft_mongo_store_config mc data_dir s)) ''default'' = Inr draft_default
   \<and> getitem (fst (split_mongo_store_config mc data_dir
        (snd (draft_mongo_store_config mc data_dir s)))) ''default'' = Inr split_default
   \<and> getitem (xml_store_config data_dir PNone) ''default'' = Inr xml_default
   \<and> fst (mixed_store_config mc data_dir mappings include_xml s) =
       Inr (PDict
         [(''default'', PDict
            [(''ENGINE'', PStr ''xmodule.modulestore.mixed.MixedModuleStore''),
             (''OPTIONS'', PDict
                [(''mappings'', mappings),
                 (''stores'', PList ([draft_default, split_default]
                    @ (if include_xml then [xml_default] else [])))])])])"
  by (simp add: mixed_store_config_def draft_mongo_store_config_def split_mongo_store_config_def
        xml_store_config_def uuid4_def Let_def)

theorem mixed_store_config_shape_witness:
  "length (mixed_stores (projr (fst (mixed_store_config example_mongo ''/data''
       (PDict [(''edX/toy/2012_Fall'', PStr ''xml'')]) True example_uuids)))) = 3
   \<and> length (mixed_stores (projr (fst (mixed_store_config example_mongo ''/data''
       (PDict []) False example_uuids)))) = 2"
  using mixed_store_config_shape
          [of example_mongo "''/data''" example_uuids
              "PDict [(''edX/toy/2012_Fall'', PStr ''xml'')]" True]
        mixed_store_config_shape [of example_mongo "''/data''" example_uuids "PDict []" False]
  by (auto simp: mixed_stores_def)

text \<open>
  Claim C5: keys are unique identifiers, and in particular the NAME values in the
  stores list of a mixed configuration are pairwise distinct. The code does not keep
  to it: \<^verbatim>\<open>draft_mongo_store_config\<close> and \<^verbatim>\<open>split_mongo_store_config\<close> both set
  \<^verbatim>\<open>'NAME': 'draft'\<close>, so the NAME values of the stores of
  \<^verbatim>\<open>mixed_store_config('/data', {})\<close> are \<^verbatim>\<open>'draft'\<close>, \<^verbatim>\<open>'draft'\<close>, \<^verbatim>\<open>'xml'\<close>.
\<close>

theorem mixed_store_config_names_not_distinct:
  "\<not> distinct (map (\<lambda>p. getitem p ''NAME'')
       (mixed_stores (projr (fst (mixed_store_config example_mongo ''/data'' (PDict []) True
          example_uuids)))))"
  by (simp add: mixed_store_config_def draft_mongo_store_config_def split_mongo_store_config_def
        xml_store_config_def uuid4_def Let_def mixed_stores_def example_uuids_def example_mongo_def)

section \<open>Properties of the lifecycle hooks\<close>

lemma events_emit [simp]: "events (emit e w) = events w @ [e]"
  by (simp add: emit_def)

lemma CONTENTSTORE_emit [simp]: "CONTENTSTORE (emit e w) = CONTENTSTORE w"
  by (simp add: emit_def)

lemma events_drop_store: "events (drop_store w st) = events w @ drop_calls st"
  by (simp add: drop_store_def drop_calls_def Let_def split: option.splits)

lemma events_foldl_drop_store:
  "events (foldl drop_store w sts) = events w @ concat (map drop_calls sts)"
  by (induction sts arbitrary: w) (simp_all add: events_drop_store)

lemma events_drop_mongo_collections:
  "events (drop_mongo_collections E w) =
     events w
     @ (if is_XMLModuleStore (modulestore E w) then []
        else concat (map drop_calls (modulestores (modulestore E w))))
     @ (if has_close_connections (modulestore E w) then [CloseConnections] else [])"
  by (simp add: drop_mongo_collections_def Let_def events_foldl_drop_store)

lemma CONTENTSTORE_drop_mongo_collections:
  "CONTENTSTORE (drop_mongo_collections E w) = []"
  by (simp add: drop_mongo_collections_def Let_def)

lemma drop_calls_drop_database:
  "st \<in> set sts \<Longrightarrow> store_database st = Some db
   \<Longrightarrow> DropDatabase (connection db) (db_name db) \<in> set (concat (map drop_calls sts))"
  by (force simp: drop_calls_def)

lemma events_teardown_store:
  "\<exists>evs. events (teardown_store E w st) = events w @ evs \<and> list_all is_cleanup evs"
  by (auto simp: teardown_store_def Let_def split: option.splits)

lemma events_foldl_teardown_store:
  "\<exists>evs. events (foldl (teardown_store E) w sts) = events w @ evs \<and> list_all is_cleanup evs"
proof (induction sts arbitrary: w)
  case Nil
  then show ?case by simp
next
  case (Cons st sts)
  obtain e1 where 1: "events (teardown_store E w st) = events w @ e1" "list_all is_cleanup e1"
    using events_teardown_store by blast
  obtain e2 where 2: "events (foldl (teardown_store E) (teardown_store E w st) sts)
        = events (teardown_store E w st) @ e2" "list_all is_cleanup e2"
    using Cons.IH by blast
  show ?case
    by (rule exI [of _ "e1 @ e2"]) (simp add: 1 2)
qed

text \<open>
  Claim C6: \<^verbatim>\<open>_pre_setup\<close> runs \<^verbatim>\<open>drop_mongo_collections\<close> and only then the superclass
  setup; \<^verbatim>\<open>_post_teardown\<close> runs \<^verbatim>\<open>drop_mongo_collections\<close>, then clears the existing
  modulestores and the request cache, then removes temporary directories (only
  \<^verbatim>\<open>disconnect\<close> and \<^verbatim>\<open>rmtree\<close> calls), and only then the superclass teardown.
  \<^verbatim>\<open>drop_mongo_collections\<close> itself adds its calls after everything done before, and on a
  module store that is not an \<^verbatim>\<open>XMLModuleStore\<close> it drops the database of every
  constituent store that has one.
\<close>

theorem lifecycle_hooks_flush_before_superclass:
  "events (pre_setup E w) = events (drop_mongo_collections E w) @ [SuperPreSetup]
   \<and> (\<exists>evs. events (post_teardown E w) =
          events (drop_mongo_collections E w)
            @ [ClearExistingModulestores, ClearRequestCache] @ evs @ [SuperPostTeardown]
          \<and> list_all is_cleanup evs)
   \<and> (\<exists>evs. events (drop_mongo_collections E w) = events w @ evs
          \<and> (\<not> is_XMLModuleStore (modulestore E w) \<longrightarrow>
               (\<forall>st \<in> set (modulestores (modulestore E w)). \<forall>db. store_database st = Some db \<longrightarrow>
                  DropDatabase (connection db) (db_name db) \<in> set evs)))"
proof (intro conjI)
  show "events (pre_setup E w) = events (drop_mongo_collections E w) @ [SuperPreSetup]"
    by (simp add: pre_setup_def)
next
  let ?w3 = "emit ClearRequestCache (emit ClearExistingModulestores (drop_mongo_collections E w))"
  obtain evs where e: "events (foldl (teardown_store E) ?w3 (modulestores (modulestore E ?w3)))
      = events ?w3 @ evs" "list_all is_cleanup evs"
    using events_foldl_teardown_store by blast
  show "\<exists>evs. events (post_teardown E w) =
          events (drop_mongo_collections E w)
            @ [ClearExistingModulestores, ClearRequestCache] @ evs @ [SuperPostTeardown]
          \<and> list_all is_cleanup evs"
  proof (cases "is_XMLModuleStore (modulestore E ?w3)")
    case True
    then show ?thesis
      by (intro exI [of _ "[]"]) (simp add: post_teardown_def Let_def)
  next
    case False
    then show ?thesis
      using e by (intro exI [of _ evs]) (simp add: post_teardown_def Let_def)
  qed
next
  show "\<exists>evs. events (drop_mongo_collections E w) = events w @ evs
          \<and> (\<not> is_XMLModuleStore (modulestore E w) \<longrightarrow>
               (\<forall>st \<in> set (modulestores (modulestore E w)). \<forall>db. store_database st = Some db \<longrightarrow>
                  DropDatabase (connection db) (db_name db) \<in> set evs))"
    using drop_calls_drop_database
    by (intro exI [of _ "(if is_XMLModuleStore (modulestore E w) then []
          else concat (map drop_calls (modulestores (modulestore E w))))
          @ (if has_close_connections (modulestore E w) then [CloseConnections] else [])"])
       (auto simp: events_drop_mongo_collections)
qed

theorem lifecycle_hooks_flush_before_superclass_witness:
  "events (pre_setup (example_env example_mixed) example_world) =
     [DropDatabase 1 ''test_xmodule'', Disconnect 1, CloseConnections, SuperPreSetup]
   \<and> (\<exists>evs. events (post_teardown (example_env example_mixed) example_world) =
          [DropDatabase 1 ''test_xmodule'', Disconnect 1, CloseConnections,
           ClearExistingModulestores, ClearRequestCache] @ evs @ [SuperPostTeardown]
        \<and> list_all is_cleanup evs)"
proof -
  have d: "events (drop_mongo_collections (example_env example_mixed) example_world) =
             [DropDatabase 1 ''test_xmodule'', Disconnect 1, CloseConnections]"
    by (simp add: drop_mongo_collections_def example_env_def example_mixed_def example_world_def
          drop_store_def Let_def)
  from lifecycle_hooks_flush_before_superclass [of "example_env example_mixed" example_world]
  show ?thesis unfolding d by simp
qed

text \<open>
  Claim C10: every call of \<^verbatim>\<open>drop_mongo_collections\<close> leaves \<^verbatim>\<open>_CONTENTSTORE\<close> empty,
  whatever the active module store. On an \<^verbatim>\<open>XMLModuleStore\<close> it drops no database and
  disconnects nothing, and still calls \<^verbatim>\<open>close_connections\<close> when the store has that
  attribute; on any other module store the calls for the constituent stores come
  first, the \<^verbatim>\<open>close_connections\<close> call last.
\<close>

theorem drop_mongo_collections_clears_contentstore:
  "CONTENTSTORE (drop_mongo_collections E w) = []
   \<and> (is_XMLModuleStore (modulestore E w) \<longrightarrow>
        events (drop_mongo_collections E w) =
          events w @ (if has_close_connections (modulestore E w) then [CloseConnections] else []))
   \<and> (\<not> is_XMLModuleStore (modulestore E w) \<longrightarrow>
        events (drop_mongo_collections E w) =
          events w @ concat (map drop_calls (modulestores (modulestore E w)))
            @ (if has_close_connections (modulestore E w) then [CloseConnections] else []))"
  by (simp add: CONTENTSTORE_drop_mongo_collections events_drop_mongo_collections)

theorem drop_mongo_collections_clears_contentstore_witness:
  "CONTENTSTORE (drop_mongo_collections (example_env example_xml) example_world) = []
   \<and> events (drop_mongo_collections (example_env example_xml) example_world) = [CloseConnections]
   \<and> CONTENTSTORE example_world \<noteq> []"
  using drop_mongo_collections_clears_contentstore [of "example_env example_xml" example_world]
  by (simp add: example_env_def example_xml_def example_world_def)

section \<open>Properties of the sample-course seeding\<close>

lemma preorders_simps [simp]:
  "preorders [] = []"
  "preorders (t # ts) = preorder t @ preorders ts"
  by (simp_all add: preorders_def)

lemma calls_call [simp]: "calls (call c self) = calls self @ [c]"
  by (simp add: call_def)

lemma attrs_call [simp]: "attrs (call c self) = attrs self"
  by (simp add: call_def)

lemma unsettable_call [simp]: "unsettable (call c self) = unsettable self"
  by (simp add: call_def)

lemma self_store_ok [simp]: "attrs self ''store'' = Some StoreAttr \<Longrightarrow> self_store self m = Inr ()"
  by (simp add: self_store_def)

lemma self_user_id_ok [simp]:
  "attrs self ''user'' = Some (UserAttr uid) \<Longrightarrow> self_user_id self = Inr uid"
  by (simp add: self_user_id_def)

lemma self_course_loc_ok [simp]:
  "attrs self ''course_loc'' = Some (LocAttr l) \<Longrightarrow> self_course_loc self = Inr l"
  by (simp add: self_course_loc_def)

lemma setattr_settable:
  "settable self name \<Longrightarrow> setattr name v self = Inr (self\<lparr>attrs := (attrs self)(name \<mapsto> v)\<rparr>)"
  by (simp add: settable_def setattr_def)

lemma settable_cong: "unsettable self' = unsettable self \<Longrightarrow> settable self' name = settable self name"
  by (simp add: settable_def)

text \<open>
  The calls the claim describes are one \<^verbatim>\<open>create_child\<close> per record, in depth-first
  order, a record before the records of its sub-tree.
\<close>

lemma created_claimed_calls:
  fixes S :: "('loc, 'key) modulestore_api"
  shows "map created (claimed_sub_tree_calls S uid parent log t) = map (requested uid) (preorder t)"
    and "map created (claimed_sub_trees_calls S uid parent log ts) = map (requested uid) (preorders ts)"
  by (induction S uid parent log t and S uid parent log ts
        rule: claimed_sub_tree_calls_claimed_sub_trees_calls.induct)
     (simp_all add: requested_def preorders_def)

text \<open>
  The recursion of \<^verbatim>\<open>create_sub_tree\<close>, by induction along its own calls: as long as no
  block id rebinds \<^verbatim>\<open>self.store\<close> or \<^verbatim>\<open>self.user\<close> and every block id can be bound, it
  returns, having made the calls the claim describes.
\<close>

lemma create_sub_tree_seeded:
  fixes S :: "('loc, 'key) modulestore_api"
  shows "attrs self ''store'' = Some StoreAttr \<Longrightarrow> attrs self ''user'' = Some (UserAttr uid)
         \<Longrightarrow> ''store'' \<notin> block_id ` set (preorder t) \<Longrightarrow> ''user'' \<notin> block_id ` set (preorder t)
         \<Longrightarrow> \<forall>b \<in> set (preorder t). settable self (block_id b)
         \<Longrightarrow> seeded (create_sub_tree S parent_loc t self) self
               (claimed_sub_tree_calls S uid parent_loc (calls self) t) (preorder t)"
    and "attrs self ''store'' = Some StoreAttr \<Longrightarrow> attrs self ''user'' = Some (UserAttr uid)
         \<Longrightarrow> ''store'' \<notin> block_id ` set (preorders ts) \<Longrightarrow> ''user'' \<notin> block_id ` set (preorders ts)
         \<Longrightarrow> \<forall>b \<in> set (preorders ts). settable self (block_id b)
         \<Longrightarrow> seeded (create_sub_trees S parent_loc ts self) self
               (claimed_sub_trees_calls S uid parent_loc (calls self) ts) (preorders ts)"
proof (induction S parent_loc t self and S parent_loc ts self
       rule: create_sub_tree_create_sub_trees.induct)
  case (1 S parent_loc bid cat flds subs self)
  let ?c = "CreateChild uid (version_agnostic S parent_loc) cat bid flds"
  let ?self1 = "call ?c self"
  let ?loc = "created_child_location S (calls ?self1)"
  let ?cs = "claimed_sub_trees_calls S uid ?loc (calls ?self1) subs"
  have "seeded (create_sub_trees S ?loc subs ?self1) ?self1 ?cs (preorders subs)"
    using "1.prems" by (intro "1.IH") (auto simp: preorders_def settable_def)
  then obtain self2 where
    r: "create_sub_trees S ?loc subs ?self1 = Inr self2" and
    c: "calls self2 = calls ?self1 @ ?cs" and
    n: "unsettable self2 = unsettable ?self1" and
    f: "\<And>k. k \<notin> block_id ` set (preorders subs) \<Longrightarrow> attrs self2 k = attrs ?self1 k"
    unfolding seeded_def by blast
  have "settable self bid"
    using "1.prems" by simp
  then have "settable self2 bid"
    using n by (simp add: settable_def)
  then have s: "setattr bid (LocAttr (version_agnostic S ?loc)) self2 =
      Inr (self2\<lparr>attrs := (attrs self2)(bid \<mapsto> LocAttr (version_agnostic S ?loc))\<rparr>)"
    by (rule setattr_settable)
  show ?case
    unfolding seeded_def
    apply (rule exI [of _ "self2\<lparr>attrs := (attrs self2)(bid \<mapsto> LocAttr (version_agnostic S ?loc))\<rparr>"])
    using "1.prems" r c n f s
    apply (simp add: Let_def preorders_def)
    done
next
  case (2 S block_location self)
  then show ?case by (simp add: seeded_def)
next
  case (3 S block_location tree trees self)
  let ?cs1 = "claimed_sub_tree_calls S uid block_location (calls self) tree"
  have "seeded (create_sub_tree S block_location tree self) self ?cs1 (preorder tree)"
    using "3.prems" by (intro "3.IH"(1)) auto
  then obtain self1 where
    r1: "create_sub_tree S block_location tree self = Inr self1" and
    c1: "calls self1 = calls self @ ?cs1" and
    n1: "unsettable self1 = unsettable self" and
    f1: "\<And>k. k \<notin> block_id ` set (preorder tree) \<Longrightarrow> attrs self1 k = attrs self k"
    unfolding seeded_def by blast
  let ?cs2 = "claimed_sub_trees_calls S uid block_location (calls self1) trees"
  have s1: "attrs self1 ''store'' = Some StoreAttr"
    using f1 [of "''store''"] "3.prems" by (simp add: image_Un)
  have u1: "attrs self1 ''user'' = Some (UserAttr uid)"
    using f1 [of "''user''"] "3.prems" by (simp add: image_Un)
  have t1: "\<forall>b \<in> set (preorders trees). settable self1 (block_id b)"
    using "3.prems" n1 by (simp add: settable_def)
  have "seeded (create_sub_trees S block_location trees self1) self1 ?cs2 (preorders trees)"
    using "3.prems" r1 s1 u1 t1 by (intro "3.IH"(2)) (auto simp: image_Un)
  then obtain self2 where
    r2: "create_sub_trees S block_location trees self1 = Inr self2" and
    c2: "calls self2 = calls self1 @ ?cs2" and
    n2: "unsettable self2 = unsettable self1" and
    f2: "\<And>k. k \<notin> block_id ` set (preorders trees) \<Longrightarrow> attrs self2 k = attrs self1 k"
    unfolding seeded_def by blast
  show ?case
    unfolding seeded_def
    apply (rule exI [of _ self2])
    using r1 r2 c1 c2 n1 n2 f1 f2
    apply (simp add: image_Un)
    done
qed

text \<open>The loop over the top-level trees, which also needs \<^verbatim>\<open>self.course_loc\<close> kept.\<close>

lemma create_trees_seeded:
  fixes S :: "('loc, 'key) modulestore_api"
  shows "attrs self ''store'' = Some StoreAttr \<Longrightarrow> attrs self ''user'' = Some (UserAttr uid)
         \<Longrightarrow> attrs self ''course_loc'' = Some (LocAttr course_loc)
         \<Longrightarrow> ''store'' \<notin> block_id ` set (preorders ts) \<Longrightarrow> ''user'' \<notin> block_id ` set (preorders ts)
         \<Longrightarrow> ''course_loc'' \<notin> block_id ` set (preorders ts)
         \<Longrightarrow> \<forall>b \<in> set (preorders ts). settable self (block_id b)
         \<Longrightarrow> seeded (create_trees S ts self) self
               (claimed_sub_trees_calls S uid course_loc (calls self) ts) (preorders ts)"
proof (induction ts arbitrary: self)
  case Nil
  then show ?case by (simp add: seeded_def)
next
  case (Cons tree trees)
  let ?cs1 = "claimed_sub_tree_calls S uid course_loc (calls self) tree"
  have "seeded (create_sub_tree S course_loc tree self) self ?cs1 (preorder tree)"
    using Cons.prems by (intro create_sub_tree_seeded(1)) (auto simp: image_Un)
  then obtain self1 where
    r1: "create_sub_tree S course_loc tree self = Inr self1" and
    c1: "calls self1 = calls self @ ?cs1" and
    n1: "unsettable self1 = unsettable self" and
    f1: "\<And>k. k \<notin> block_id ` set (preorder tree) \<Longrightarrow> attrs self1 k = attrs self k"
    unfolding seeded_def by blast
  let ?cs2 = "claimed_sub_trees_calls S uid course_loc (calls self1) trees"
  have s1: "attrs self1 ''store'' = Some StoreAttr"
    using f1 [of "''store''"] Cons.prems by (simp add: image_Un)
  have u1: "attrs self1 ''user'' = Some (UserAttr uid)"
    using f1 [of "''user''"] Cons.prems by (simp add: image_Un)
  have l1: "attrs self1 ''course_loc'' = Some (LocAttr course_loc)"
    using f1 [of "''course_loc''"] Cons.prems by (simp add: image_Un)
  have t1: "\<forall>b \<in> set (preorders trees). settable self1 (block_id b)"
    using Cons.prems n1 by (simp add: settable_def)
  have "seeded (create_trees S trees self1) self1 ?cs2 (preorders trees)"
    using Cons.prems s1 u1 l1 t1 by (intro Cons.IH) (auto simp: image_Un)
  then obtain self2 where
    r2: "create_trees S trees self1 = Inr self2" and
    c2: "calls self2 = calls self1 @ ?cs2" and
    n2: "unsettable self2 = unsettable self1" and
    f2: "\<And>k. k \<notin> block_id ` set (preorders trees) \<Longrightarrow> attrs self2 k = attrs self1 k"
    unfolding seeded_def by blast
  show ?case
    unfolding seeded_def
    apply (rule exI [of _ self2])
    using Cons.prems r1 r2 c1 c2 n1 n2 f1 f2
    apply (simp add: image_Un)
    done
qed

text \<open>
  Claim C7 says that for every block-info tree \<^verbatim>\<open>create_sample_course\<close> creates one child
  block per record, with the record's category, block id and fields, a parent before
  the blocks of its sub-tree, and finally publishes the course location. The method
  binds every block's location to the test-case attribute named by its block id, in the
  namespace that also holds \<^verbatim>\<open>self.course_loc\<close>, \<^verbatim>\<open>self.store\<close> and \<^verbatim>\<open>self.user\<close>. So
  the claim holds for the trees whose block ids are names that \<^verbatim>\<open>setattr\<close> binds on the
  test case (not \<^verbatim>\<open>'__class__'\<close>, not \<^verbatim>\<open>'__dict__'\<close>, no name the object refuses) and
  none of \<^verbatim>\<open>'store'\<close>, \<^verbatim>\<open>'user'\<close>, \<^verbatim>\<open>'course_loc'\<close>, on a test case that has a store and
  a user and lets \<^verbatim>\<open>course_loc\<close> be bound. The call then returns the version-agnostic
  course key. After entering the branch setting and creating the course it makes
  exactly the calls the claim describes: one \<^verbatim>\<open>create_child\<close> per record with the
  record's category, block id and fields, the top-level records under the location of
  the course, every other record under the location of the block created for its
  parent record, a record before the records of its sub-tree. Then it publishes the
  version-agnostic location of the course just created, and leaves the branch setting.
\<close>

theorem create_sample_course_creates_tree_then_publishes:
  fixes S :: "('loc, 'key) modulestore_api"
  assumes "attrs self ''store'' = Some StoreAttr"
    and "attrs self ''user'' = Some (UserAttr uid)"
    and "settable self ''course_loc''"
    and "\<forall>b \<in> set (preorders block_info_tree).
           block_id b \<notin> {''store'', ''user'', ''course_loc''} \<and> settable self (block_id b)"
  shows "\<exists>self' log course_loc cs.
           log = calls self @ [BranchSettingEnter, CreateCourse org course run uid course_fields]
         \<and> course_loc = created_course_location S log
         \<and> cs = claimed_sub_trees_calls S uid course_loc log block_info_tree
         \<and> create_sample_course S org course run (Some block_info_tree) course_fields self =
             Inr (key_version_agnostic S (course_key S course_loc), self')
         \<and> calls self' = log @ cs @ [Publish (version_agnostic S course_loc) uid, BranchSettingExit]
         \<and> map created cs = map (requested uid) (preorders block_info_tree)"
proof -
  let ?self1 = "call (CreateCourse org course run uid course_fields) (call BranchSettingEnter self)"
  let ?log = "calls self @ [BranchSettingEnter, CreateCourse org course run uid course_fields]"
  let ?cl = "created_course_location S ?log"
  let ?self2 = "?self1\<lparr>attrs := (attrs ?self1)(''course_loc'' \<mapsto> LocAttr ?cl)\<rparr>"
  let ?cs = "claimed_sub_trees_calls S uid ?cl ?log block_info_tree"
  have n: "''store'' \<notin> block_id ` set (preorders block_info_tree)"
          "''user'' \<notin> block_id ` set (preorders block_info_tree)"
          "''course_loc'' \<notin> block_id ` set (preorders block_info_tree)"
    using assms(4) by auto
  have t: "\<forall>b \<in> set (preorders block_info_tree). settable ?self2 (block_id b)"
    using assms(4) by (simp add: settable_def)
  have a: "setattr ''course_loc'' (LocAttr ?cl) ?self1 = Inr ?self2"
    using assms(3) by (intro setattr_settable) (simp add: settable_def)
  have "seeded (create_trees S block_info_tree ?self2) ?self2
          (claimed_sub_trees_calls S uid ?cl (calls ?self2) block_info_tree)
          (preorders block_info_tree)"
    using assms(1,2) n t by (intro create_trees_seeded) simp_all
  then obtain self3 where
    r: "create_trees S block_info_tree ?self2 = Inr self3" and
    c: "calls self3 = calls ?self2 @ ?cs" and
    f: "\<And>k. k \<notin> block_id ` set (preorders block_info_tree) \<Longrightarrow> attrs self3 k = attrs ?self2 k"
    unfolding seeded_def by auto
  have s3: "attrs self3 ''store'' = Some StoreAttr"
    using f [OF n(1)] assms(1) by simp
  have u3: "attrs self3 ''user'' = Some (UserAttr uid)"
    using f [OF n(2)] assms(2) by simp
  have l3: "attrs self3 ''course_loc'' = Some (LocAttr ?cl)"
    using f [OF n(3)] by simp
  have 1: "create_sample_course S org course run (Some block_info_tree) course_fields self =
             Inr (key_version_agnostic S (course_key S ?cl),
                  call BranchSettingExit (call (Publish (version_agnostic S ?cl) uid) self3))"
    using assms(1,2) a r s3 u3 l3 by (simp add: create_sample_course_def Let_def)
  have 2: "calls (call BranchSettingExit (call (Publish (version_agnostic S ?cl) uid) self3)) =
             ?log @ ?cs @ [Publish (version_agnostic S ?cl) uid, BranchSettingExit]"
    using c by simp
  have 3: "map created ?cs = map (requested uid) (preorders block_info_tree)"
    by (rule created_claimed_calls(2))
  show ?thesis
    using 1 2 3 by blast
qed

text \<open>
  On the example tree: the chapter and the about block are created under the course,
  the sequential under the chapter.
\<close>

theorem create_sample_course_creates_tree_then_publishes_witness:
  "\<exists>self'.
     create_sample_course example_store ''edX'' ''toy'' ''2012_Fall'' (Some example_tree) PNone
       example_test_case = Inr (''edX/toy/2012_Fall'', self')
     \<and> calls self' =
         [BranchSettingEnter,
          CreateCourse ''edX'' ''toy'' ''2012_Fall'' 7 PNone,
          CreateChild 7 ''course'' ''chapter'' ''chapter1''
            (PDict [(''display_name'', PStr ''Overview'')]),
          CreateChild 7 ''block:chapter1'' ''sequential'' ''seq1'' (PDict []),
          CreateChild 7 ''course'' ''about'' ''about1'' (PDict []),
          Publish ''course'' 7,
          BranchSettingExit]"
proof -
  have s: "attrs example_test_case ''store'' = Some StoreAttr"
    by (simp add: example_test_case_def)
  have u: "attrs example_test_case ''user'' = Some (UserAttr 7)"
    by (simp add: example_test_case_def)
  have l: "settable example_test_case ''course_loc''"
    by (simp add: example_test_case_def settable_def)
  have i: "\<forall>b \<in> set (preorders example_tree).
             block_id b \<notin> {''store'', ''user'', ''course_loc''}
             \<and> settable example_test_case (block_id b)"
    by (simp add: example_tree_def example_test_case_def settable_def)
  from create_sample_course_creates_tree_then_publishes
         [where self = example_test_case and uid = 7 and block_info_tree = example_tree
            and S = example_store and org = "''edX''" and course = "''toy''"
            and run = "''2012_Fall''" and course_fields = PNone,
          OF s u l i]
  show ?thesis
    by (auto simp: example_store_def example_test_case_def example_tree_def)
qed

text \<open>
  A tree with one chapter whose block id is \<^verbatim>\<open>'course_loc'\<close>: the course is created at
  the location \<^verbatim>\<open>'course'\<close>, the \<^verbatim>\<open>setattr\<close> of the chapter rebinds \<^verbatim>\<open>self.course_loc\<close>,
  and what is published is the location of the chapter.
\<close>

theorem create_sample_course_publishes_rebound_course_loc:
  "the_calls (create_sample_course example_store ''edX'' ''toy'' ''2012_Fall''
      (Some [BlockInfo ''course_loc'' ''chapter'' (PDict []) []]) PNone example_test_case)
   = Inr [BranchSettingEnter,
          CreateCourse ''edX'' ''toy'' ''2012_Fall'' 7 PNone,
          CreateChild 7 ''course'' ''chapter'' ''course_loc'' (PDict []),
          Publish ''block:course_loc'' 7,
          BranchSettingExit]
   \<and> created_course_location example_store
        [BranchSettingEnter, CreateCourse ''edX'' ''toy'' ''2012_Fall'' 7 PNone] = ''course''"
  by (simp add: the_calls_def create_sample_course_def example_store_def example_test_case_def
        Let_def self_store_def self_user_id_def self_course_loc_def call_def setattr_def)

text \<open>A chapter whose block id is \<^verbatim>\<open>'__class__'\<close>: the call raises and publishes nothing.\<close>

lemma create_sample_course_block_id_dunder_class_raises:
  "the_calls (create_sample_course example_store ''edX'' ''toy'' ''2012_Fall''
      (Some [BlockInfo ''__class__'' ''chapter'' (PDict []) []]) PNone example_test_case)
   = Inl (TypeError ''__class__ must be set to a class'')"
  by (simp add: the_calls_def create_sample_course_def example_store_def example_test_case_def
        Let_def self_store_def self_user_id_def self_course_loc_def call_def setattr_def)

section \<open>Properties of the edxnotes decorator\<close>

lemma get_html_skip:
  "truthy (getattr (system self) ''is_author_mode'' (PBool False))
     \<or> \<not> truthy (is_feature_enabled H (get_course H (course_id self)))
   \<Longrightarrow> get_html H f self args kwargs w = f self args kwargs w"
  by (simp add: get_html_def Let_def)

lemma get_html_wrap:
  assumes "\<not> truthy (getattr (system self) ''is_author_mode'' (PBool False))"
    and "truthy (is_feature_enabled H (get_course H (course_id self)))"
    and "f self args kwargs w = (Inr content, w')"
  shows "\<exists>ctx. get_html H f self args kwargs w =
                 (Inr (PStr (render_to_string H ''edxnotes_wrapper.html'' ctx)), w')
               \<and> map_of ctx ''content'' = Some content"
proof (intro exI conjI)
  show "get_html H f self args kwargs w =
          (Inr (PStr (render_to_string H ''edxnotes_wrapper.html''
             [(''content'', content),
              (''uid'', generate_uid H),
              (''edxnotes_visibility_url'',
                 PStr (reverse H ''edxnotes_visibility''
                   [(''course_id'', id' (get_course H (course_id self)))])),
              (''edxnotes_visibility'',
                 PStr (json_dumps H (edxnotes_visibility (get_course H (course_id self))))),
              (''params'', PDict
                 [(''usageId'', PStr (usage_id self)),
                  (''courseId'', PStr (course_id self)),
                  (''token'', PStr (get_token H (get_real_user H (anonymous_student_id self)))),
                  (''endpoint'', PStr (get_endpoint H)),
                  (''debug'', DEBUG H)])])), w')"
    using assms by (simp add: get_html_def Let_def)
qed simp

lemma get_html_world:
  "snd (get_html H f self args kwargs w) = snd (f self args kwargs w)"
  by (simp add: get_html_def Let_def split: prod.splits sum.splits)

lemma edxnotes_decorated:
  "class_getattr h cls ''get_html'' = Inr f \<Longrightarrow>
   edxnotes H cls h = Inr (cls, class_setattr h cls ''get_html'' (get_html H f))"
  by (simp add: edxnotes_def)

lemma class_getattr_class_setattr_same:
  "class_getattr (class_setattr h cls name v) cls name = Inr v"
  by (simp add: class_getattr_def class_setattr_def)

lemma ancestors_class_setattr [simp]:
  "ancestors (class_setattr h cls name v c) = ancestors (h c)"
  by (simp add: class_setattr_def)

lemma mro_lookup_class_setattr_other_name:
  "name' \<noteq> name \<Longrightarrow> mro_lookup (class_setattr h cls name v) cs name' = mro_lookup h cs name'"
  by (induction cs) (auto simp: class_setattr_def split: option.splits)

lemma mro_lookup_class_setattr_other_class:
  "cls \<notin> set cs \<Longrightarrow> mro_lookup (class_setattr h cls name v) cs name' = mro_lookup h cs name'"
  by (induction cs) (auto simp: class_setattr_def split: option.splits)

lemma class_getattr_class_setattr_other:
  "name' \<noteq> name \<or> cls \<notin> set (c # ancestors (h c))
   \<Longrightarrow> class_getattr (class_setattr h cls name v) c name' = class_getattr h c name'"
  unfolding class_getattr_def ancestors_class_setattr
  using mro_lookup_class_setattr_other_name [of name' name h cls v "c # ancestors (h c)"]
        mro_lookup_class_setattr_other_class [of cls "c # ancestors (h c)" h name v name']
  by auto

text \<open>
  Claim C1: decorating a component class (a class on which \<^verbatim>\<open>get_html\<close> resolves, its
  own or inherited) succeeds and makes \<^verbatim>\<open>get_html\<close> resolve, on that class, to a wrapper
  that is a two-way conditional. If the component's
  system is in author mode (\<^verbatim>\<open>is_author_mode\<close> true) or the edxnotes feature is not
  enabled for the component's course, a call is the call of the original \<^verbatim>\<open>get_html\<close>
  with the same \<^verbatim>\<open>self\<close>, \<^verbatim>\<open>args\<close> and \<^verbatim>\<open>kwargs\<close>: same value, same effect. Otherwise,
  when the original returns \<open>content\<close>, the wrapper returns the rendering of the
  template \<^verbatim>\<open>'edxnotes_wrapper.html'\<close> with a context whose \<^verbatim>\<open>'content'\<close> entry is
  \<open>content\<close>.
\<close>

theorem wrapped_get_html_two_way_conditional:
  assumes "class_getattr h cls ''get_html'' = Inr original_get_html"
  shows "\<exists>h' wrapped.
           edxnotes H cls h = Inr (cls, h') \<and> class_getattr h' cls ''get_html'' = Inr wrapped \<and>
           (\<forall>self args kwargs w.
              (truthy (getattr (system self) ''is_author_mode'' (PBool False))
                 \<or> \<not> truthy (is_feature_enabled H (get_course H (course_id self)))
               \<longrightarrow> wrapped self args kwargs w = original_get_html self args kwargs w) \<and>
              (\<not> truthy (getattr (system self) ''is_author_mode'' (PBool False))
                 \<and> truthy (is_feature_enabled H (get_course H (course_id self)))
               \<longrightarrow> (\<forall>content w'. original_get_html self args kwargs w = (Inr content, w')
                      \<longrightarrow> (\<exists>ctx. wrapped self args kwargs w =
                                   (Inr (PStr (render_to_string H ''edxnotes_wrapper.html'' ctx)), w')
                                 \<and> map_of ctx ''content'' = Some content))))"
proof -
  let ?wrapped = "get_html H original_get_html"
  let ?h' = "class_setattr h cls ''get_html'' ?wrapped"
  have 1: "edxnotes H cls h = Inr (cls, ?h')"
    using assms by (rule edxnotes_decorated)
  have 2: "class_getattr ?h' cls ''get_html'' = Inr ?wrapped"
    by (rule class_getattr_class_setattr_same)
  have 3: "\<forall>self args kwargs w.
              (truthy (getattr (system self) ''is_author_mode'' (PBool False))
                 \<or> \<not> truthy (is_feature_enabled H (get_course H (course_id self)))
               \<longrightarrow> ?wrapped self args kwargs w = original_get_html self args kwargs w) \<and>
              (\<not> truthy (getattr (system self) ''is_author_mode'' (PBool False))
                 \<and> truthy (is_feature_enabled H (get_course H (course_id self)))
               \<longrightarrow> (\<forall>content w'. original_get_html self args kwargs w = (Inr content, w')
                      \<longrightarrow> (\<exists>ctx. ?wrapped self args kwargs w =
                                   (Inr (PStr (render_to_string H ''edxnotes_wrapper.html'' ctx)), w')
                                 \<and> map_of ctx ''content'' = Some content)))"
  proof (intro allI conjI impI)
    fix self :: component and args kwargs w
    assume "truthy (getattr (system self) ''is_author_mode'' (PBool False))
              \<or> \<not> truthy (is_feature_enabled H (get_course H (course_id self)))"
    then show "?wrapped self args kwargs w = original_get_html self args kwargs w"
      by (rule get_html_skip)
  next
    fix self :: component and args kwargs w content w'
    assume c: "\<not> truthy (getattr (system self) ''is_author_mode'' (PBool False))
              \<and> truthy (is_feature_enabled H (get_course H (course_id self)))"
      and o: "original_get_html self args kwargs w = (Inr content, w')"
    show "\<exists>ctx. ?wrapped self args kwargs w =
                   (Inr (PStr (render_to_string H ''edxnotes_wrapper.html'' ctx)), w')
                 \<and> map_of ctx ''content'' = Some content"
      using get_html_wrap [of self H original_get_html args kwargs w content w'] c o by simp
  qed
  show ?thesis
    by (intro exI conjI) (rule 1, rule 2, rule 3)
qed

theorem wrapped_get_html_two_way_conditional_witness:
  "\<exists>h' wrapped.
     edxnotes example_helpers 0 example_heap = Inr (0, h')
     \<and> class_getattr h' 0 ''get_html'' = Inr wrapped \<and>
     wrapped studio_component [] [] 0 = (Inr (PStr ''<p>text</p>''), 1) \<and>
     (\<exists>ctx. wrapped lms_component [] [] 0 =
              (Inr (PStr (render_to_string example_helpers ''edxnotes_wrapper.html'' ctx)), 1)
            \<and> map_of ctx ''content'' = Some (PStr ''<p>text</p>''))"
proof -
  have g: "class_getattr example_heap 0 ''get_html'' = Inr example_original"
    by (simp add: example_heap_def class_getattr_def)
  from wrapped_get_html_two_way_conditional
         [of example_heap 0 example_original example_helpers, OF g]
  obtain h' wrapped where
    e: "edxnotes example_helpers 0 example_heap = Inr (0, h')" and
    s: "class_getattr h' 0 ''get_html'' = Inr wrapped" and
    a: "\<And>(self::component) args kwargs w.
          truthy (getattr (system self) ''is_author_mode'' (PBool False))
            \<or> \<not> truthy (is_feature_enabled example_helpers (get_course example_helpers (course_id self)))
          \<Longrightarrow> wrapped self args kwargs w = example_original self args kwargs w" and
    b: "\<And>(self::component) args kwargs w content w'.
          \<not> truthy (getattr (system self) ''is_author_mode'' (PBool False))
            \<and> truthy (is_feature_enabled example_helpers (get_course example_helpers (course_id self)))
          \<Longrightarrow> example_original self args kwargs w = (Inr content, w')
          \<Longrightarrow> \<exists>ctx. wrapped self args kwargs w =
                     (Inr (PStr (render_to_string example_helpers ''edxnotes_wrapper.html'' ctx)), w')
                   \<and> map_of ctx ''content'' = Some content"
    by blast
  have 1: "wrapped studio_component [] [] 0 = (Inr (PStr ''<p>text</p>''), 1)"
    using a [of studio_component "[]" "[]" 0]
    by (simp add: studio_component_def getattr_def example_original_def)
  have 2: "\<exists>ctx. wrapped lms_component [] [] 0 =
              (Inr (PStr (render_to_string example_helpers ''edxnotes_wrapper.html'' ctx)), 1)
            \<and> map_of ctx ''content'' = Some (PStr ''<p>text</p>'')"
    using b [of lms_component "[]" "[]" 0 "PStr ''<p>text</p>''" 1]
    by (simp add: lms_component_def getattr_def example_original_def example_helpers_def)
  from e s 1 2 show ?thesis by blast
qed

text \<open>
  Claim C2: on a component whose system has no \<^verbatim>\<open>is_author_mode\<close> attribute the lookup
  yields the default \<^verbatim>\<open>False\<close> and raises nothing, and the call is decided by the
  feature flag alone: with the feature off it is the call of the original
  \<^verbatim>\<open>get_html\<close>; with the feature on, and the original returning \<open>content\<close>, it is the
  rendering of the wrapper template around \<open>content\<close>. The wrapper raises only where
  the original \<^verbatim>\<open>get_html\<close> raised, and then the same exception.
\<close>

theorem missing_is_author_mode_falls_back_to_false:
  assumes "map_of (system self) ''is_author_mode'' = None"
  shows "getattr (system self) ''is_author_mode'' (PBool False) = PBool False
    \<and> (\<not> truthy (is_feature_enabled H (get_course H (course_id self)))
         \<longrightarrow> get_html H f self args kwargs w = f self args kwargs w)
    \<and> (truthy (is_feature_enabled H (get_course H (course_id self)))
         \<longrightarrow> (\<forall>content w'. f self args kwargs w = (Inr content, w')
               \<longrightarrow> (\<exists>ctx. get_html H f self args kwargs w =
                             (Inr (PStr (render_to_string H ''edxnotes_wrapper.html'' ctx)), w')
                          \<and> map_of ctx ''content'' = Some content)))
    \<and> (\<forall>e w'. get_html H f self args kwargs w = (Inl e, w') \<longrightarrow> f self args kwargs w = (Inl e, w'))"
proof (intro conjI impI allI)
  show d: "getattr (system self) ''is_author_mode'' (PBool False) = PBool False"
    using assms by (simp add: getattr_def)
  show "get_html H f self args kwargs w = f self args kwargs w"
    if "\<not> truthy (is_feature_enabled H (get_course H (course_id self)))"
    using that by (simp add: get_html_skip)
  show "\<exists>ctx. get_html H f self args kwargs w =
                 (Inr (PStr (render_to_string H ''edxnotes_wrapper.html'' ctx)), w')
               \<and> map_of ctx ''content'' = Some content"
    if "truthy (is_feature_enabled H (get_course H (course_id self)))"
      and "f self args kwargs w = (Inr content, w')" for content w'
    using get_html_wrap [of self H f args kwargs w content w'] d that by simp
  show "f self args kwargs w = (Inl e, w')"
    if "get_html H f self args kwargs w = (Inl e, w')" for e w'
    using that by (auto simp: get_html_def Let_def split: if_splits prod.splits sum.splits)
qed

theorem missing_is_author_mode_falls_back_to_false_witness:
  "getattr (system lms_component) ''is_author_mode'' (PBool False) = PBool False
   \<and> (\<exists>ctx. get_html example_helpers example_original lms_component [] [] (0::nat) =
              (Inr (PStr (render_to_string example_helpers ''edxnotes_wrapper.html'' ctx)), 1)
            \<and> map_of ctx ''content'' = Some (PStr ''<p>text</p>''))"
proof -
  have m: "map_of (system lms_component) ''is_author_mode'' = None"
    by (simp add: lms_component_def)
  have t: "truthy (is_feature_enabled example_helpers
             (get_course example_helpers (course_id lms_component)))"
    by (simp add: lms_component_def example_helpers_def)
  have o: "example_original lms_component [] [] 0 = (Inr (PStr ''<p>text</p>''), 1)"
    by (simp add: example_original_def)
  from missing_is_author_mode_falls_back_to_false
         [OF m, of example_helpers example_original "[]" "[]" 0] t o
  show ?thesis by blast
qed

text \<open>
  Claim C8 says that for every class the decorator returns the same class object and
  rebinds only \<^verbatim>\<open>get_html\<close>. The decorator first reads \<^verbatim>\<open>cls.get_html\<close>, so on a class
  on which \<^verbatim>\<open>get_html\<close> does not resolve it raises AttributeError and returns nothing.
  For every class on which \<^verbatim>\<open>get_html\<close> resolves, defined by the class or inherited,
  the claim holds: the decorator returns the very reference it was given; every other
  attribute of the class, its own or inherited, resolves as before; in the namespace of
  the class itself only \<^verbatim>\<open>get_html\<close> is bound anew, its ancestors stay, and no other
  class object is changed. What other classes resolve changes only for \<^verbatim>\<open>get_html\<close> and
  only on classes that have the decorated class among their ancestors.
\<close>

theorem edxnotes_returns_class_rebinds_only_get_html:
  assumes "class_getattr h cls ''get_html'' = Inr original_get_html"
  shows "\<exists>h'. edxnotes H cls h = Inr (cls, h')
            \<and> (\<forall>name. name \<noteq> ''get_html'' \<longrightarrow> class_getattr h' cls name = class_getattr h cls name)
            \<and> (\<forall>name. name \<noteq> ''get_html'' \<longrightarrow> class_dict (h' cls) name = class_dict (h cls) name)
            \<and> ancestors (h' cls) = ancestors (h cls)
            \<and> (\<forall>c. c \<noteq> cls \<longrightarrow> h' c = h c)
            \<and> (\<forall>c name. name \<noteq> ''get_html'' \<or> cls \<notin> set (c # ancestors (h c))
                  \<longrightarrow> class_getattr h' c name = class_getattr h c name)"
proof -
  let ?h' = "class_setattr h cls ''get_html'' (get_html H original_get_html)"
  have 1: "edxnotes H cls h = Inr (cls, ?h')"
    using assms by (rule edxnotes_decorated)
  have 2: "\<forall>c name. name \<noteq> ''get_html'' \<or> cls \<notin> set (c # ancestors (h c))
             \<longrightarrow> class_getattr ?h' c name = class_getattr h c name"
    using class_getattr_class_setattr_other by blast
  have 3: "\<forall>name. name \<noteq> ''get_html'' \<longrightarrow> class_getattr ?h' cls name = class_getattr h cls name"
    using 2 by blast
  have 4: "\<forall>name. name \<noteq> ''get_html'' \<longrightarrow> class_dict (?h' cls) name = class_dict (h cls) name"
    by (simp add: class_setattr_def)
  have 5: "ancestors (?h' cls) = ancestors (h cls)"
    by simp
  have 6: "\<forall>c. c \<noteq> cls \<longrightarrow> ?h' c = h c"
    by (simp add: class_setattr_def)
  show ?thesis
    by (intro exI conjI) (rule 1, rule 3, rule 4, rule 5, rule 6, rule 2)
qed

text \<open>
  Decorating the subclass 2, which inherits \<^verbatim>\<open>get_html\<close> from class 0: the reference
  comes back, \<^verbatim>\<open>handle_ajax\<close> still resolves to the inherited method, and class 0 is as
  it was.
\<close>

theorem edxnotes_returns_class_rebinds_only_get_html_witness:
  "\<exists>h'. edxnotes example_helpers 2 example_heap = Inr (2, h')
      \<and> class_getattr h' 2 ''handle_ajax'' = Inr example_original
      \<and> h' 0 = example_heap 0
      \<and> class_getattr h' 0 ''get_html'' = Inr example_original"
proof -
  have g: "class_getattr example_heap 2 ''get_html'' = Inr example_original"
    by (simp add: example_heap_def class_getattr_def)
  have a: "class_getattr example_heap 2 ''handle_ajax'' = Inr example_original"
    by (simp add: example_heap_def class_getattr_def)
  have b: "class_getattr example_heap 0 ''get_html'' = Inr example_original"
    by (simp add: example_heap_def class_getattr_def)
  have c: "2 \<notin> set (0 # ancestors (example_heap 0))"
    by (simp add: example_heap_def)
  from edxnotes_returns_class_rebinds_only_get_html
         [of example_heap 2 example_original example_helpers, OF g]
  obtain h' where
    e: "edxnotes example_helpers 2 example_heap = Inr (2, h')" and
    n: "\<And>name. name \<noteq> ''get_html'' \<Longrightarrow> class_getattr h' 2 name = class_getattr example_heap 2 name" and
    o: "\<And>c. c \<noteq> 2 \<Longrightarrow> h' c = example_heap c" and
    r: "\<And>c name. name \<noteq> ''get_html'' \<or> 2 \<notin> set (c # ancestors (example_heap c))
          \<Longrightarrow> class_getattr h' c name = class_getattr example_heap c name"
    by blast
  have 1: "class_getattr h' 2 ''handle_ajax'' = Inr example_original"
    using n [of "''handle_ajax''"] a by simp
  have 2: "h' 0 = example_heap 0"
    using o [of 0] by simp
  have 3: "class_getattr h' 0 ''get_html'' = Inr example_original"
    using r [of "''get_html''" 0] b c by simp
  from e 1 2 3 show ?thesis by blast
qed

text \<open>
  Decorating class 0 changes what its subclass 2 resolves \<^verbatim>\<open>get_html\<close> to: the
  wrapper.
\<close>

lemma edxnotes_subclass_resolves_wrapper:
  "class_getattr
     (class_setattr example_heap 0 ''get_html'' (get_html example_helpers example_original))
     2 ''get_html''
   = Inr (get_html example_helpers example_original)
   \<and> edxnotes example_helpers 0 example_heap =
       Inr (0, class_setattr example_heap 0 ''get_html''
                 (get_html example_helpers example_original))"
  by (simp add: edxnotes_def class_getattr_def class_setattr_def example_heap_def)

text \<open>
  Class 1 of the example heap has no attribute and no ancestor: decorating it raises.
\<close>

theorem edxnotes_class_without_get_html_raises:
  "edxnotes example_helpers 1 example_heap = Inl (AttributeError ''get_html'')"
  by (simp add: edxnotes_def class_getattr_def example_heap_def)

text \<open>
  Claim C9: in either branch a call of the wrapper calls the original \<^verbatim>\<open>get_html\<close>
  exactly once, with the \<^verbatim>\<open>self\<close>, \<^verbatim>\<open>args\<close> and \<^verbatim>\<open>kwargs\<close> it received: the world after
  the wrapper is the world after that one call, and an original that records its calls
  has recorded exactly one more, with these arguments.
\<close>

theorem wrapper_calls_original_get_html_once:
  "snd (get_html H original_get_html self args kwargs w) = snd (original_get_html self args kwargs w)
   \<and> fst (snd (get_html H (recording original_get_html) self args kwargs (log, w)))
       = log @ [(self, args, kwargs)]"
  by (simp add: get_html_world) (simp add: recording_def split: prod.splits)

theorem wrapper_calls_original_get_html_once_witness:
  "fst (snd (get_html example_helpers (recording example_original) studio_component [] [] ([], 0)))
     = [(studio_component, [], [])]
   \<and> fst (snd (get_html example_helpers (recording example_original) lms_component [] [] ([], 0)))
     = [(lms_component, [], [])]"
  using wrapper_calls_original_get_html_once
          [of example_helpers example_original studio_component "[]" "[]" 0 "[]"]
        wrapper_calls_original_get_html_once
          [of example_helpers example_original lms_component "[]" "[]" 0 "[]"]
  by simp

end
